theory Spec2Isabelle
  imports Complex_Main
begin

section \<open>JavaScript values\<close>

text \<open>
  The request body is what \<open>express.json()\<close> leaves in \<open>req.body\<close>: a JSON value.
  A JavaScript number is modelled as an exact rational or one of the three special
  values; the rounding of IEEE doubles is not modelled. A string is a list of
  8-bit characters (code units below 256). A missing property reads as
  \<open>JUndefined\<close>.
\<close>

datatype jsnum = Fin rat | PosInf | NegInf | NaN

datatype jsval =
    JUndefined
  | JNull
  | JBool bool
  | JNum jsnum
  | JStr string
  | JArr "jsval list"
  | JObj "(string \<times> jsval) list"

text \<open>ToBoolean: what \<open>!v\<close> negates.\<close>

fun truthy :: "jsval \<Rightarrow> bool" where
  "truthy JUndefined = False"
| "truthy JNull = False"
| "truthy (JBool b) = b"
| "truthy (JNum (Fin q)) = (q \<noteq> 0)"
| "truthy (JNum NaN) = False"
| "truthy (JNum PosInf) = True"
| "truthy (JNum NegInf) = True"
| "truthy (JStr s) = (s \<noteq> [])"
| "truthy (JArr xs) = True"
| "truthy (JObj kvs) = True"

text \<open>
  Reading one of the named properties (\<open>amount\<close>, \<open>cardDetails\<close>, \<open>cardNumber\<close>, ...)
  of a value that is neither \<open>undefined\<close> nor \<open>null\<close>: an object gives the stored
  value, every other value has no such property.
\<close>

fun get_prop :: "jsval \<Rightarrow> string \<Rightarrow> jsval" where
  "get_prop (JObj kvs) k = (case map_of kvs k of Some v \<Rightarrow> v | None \<Rightarrow> JUndefined)"
| "get_prop v k = JUndefined"

definition nullish :: "jsval \<Rightarrow> bool" where
  "nullish v = (v = JUndefined \<or> v = JNull)"

text \<open>\<open>amount <= 0\<close> on a number: every comparison with NaN is false.\<close>

fun num_le_zero :: "jsnum \<Rightarrow> bool" where
  "num_le_zero (Fin q) = (q \<le> 0)"
| "num_le_zero NegInf = True"
| "num_le_zero PosInf = False"
| "num_le_zero NaN = False"

text \<open>\<open>amount * 100\<close>, \<open>Math.round\<close> (nearest integer, a half rounds up) and \<open>x / 100\<close>.\<close>

fun times100 :: "jsnum \<Rightarrow> jsnum" where
  "times100 (Fin q) = Fin (q * 100)"
| "times100 n = n"

fun math_round :: "jsnum \<Rightarrow> jsnum" where
  "math_round (Fin q) = Fin (of_int \<lfloor>q + 1 / 2\<rfloor>)"
| "math_round n = n"

fun div100 :: "jsnum \<Rightarrow> jsnum" where
  "div100 (Fin q) = Fin (q / 100)"
| "div100 n = n"

section \<open>Strings: character classes, parseInt, split\<close>

definition is_digit :: "char \<Rightarrow> bool" where
  "is_digit c = (let n = (of_char c :: nat) in 48 \<le> n \<and> n \<le> 57)"

definition digit_val :: "char \<Rightarrow> int" where
  "digit_val c = int (of_char c) - 48"

text \<open>
  White space as the regular expression class \<open>\s\<close> and \<open>parseInt\<close> see it, among
  the code units below 256: tab, line feed, vertical tab, form feed, carriage
  return, space, no-break space.
\<close>

definition js_space :: "char \<Rightarrow> bool" where
  "js_space c = (let n = (of_char c :: nat) in (9 \<le> n \<and> n \<le> 13) \<or> n = 32 \<or> n = 160)"

fun digits_val :: "int \<Rightarrow> string \<Rightarrow> int" where
  "digits_val acc [] = acc"
| "digits_val acc (c # cs) = digits_val (10 * acc + digit_val c) cs"

text \<open>
  \<open>parseInt(s, 10)\<close>: leading white space is skipped, one sign is read, then the
  longest run of decimal digits; with no digit the result is NaN, here \<open>None\<close>.
\<close>

definition parseInt10 :: "string \<Rightarrow> int option" where
  "parseInt10 s =
     (let t = dropWhile js_space s;
          neg = (t \<noteq> [] \<and> hd t = CHR ''-'');
          u = (if t \<noteq> [] \<and> (hd t = CHR ''-'' \<or> hd t = CHR ''+'') then tl t else t);
          ds = takeWhile is_digit u
      in if ds = [] then None
         else Some (if neg then - digits_val 0 ds else digits_val 0 ds))"

text \<open>\<open>s.split('/')\<close>: the pieces between the separators, never an empty array.\<close>

fun split_on :: "char \<Rightarrow> string \<Rightarrow> string list" where
  "split_on sep [] = [[]]"
| "split_on sep (c # cs) =
     (if c = sep then [] # split_on sep cs
      else (case split_on sep cs of
              [] \<Rightarrow> [[c]]
            | p # ps \<Rightarrow> (c # p) # ps))"

section \<open>Card validators (src/middleware/validation.js)\<close>

text \<open>Arithmetic on a value that may be NaN (\<open>None\<close>).\<close>

definition nan_add :: "int option \<Rightarrow> int option \<Rightarrow> int option" where
  "nan_add a b = (case a of None \<Rightarrow> None | Some x \<Rightarrow> (case b of None \<Rightarrow> None | Some y \<Rightarrow> Some (x + y)))"

definition nan_gt :: "int option \<Rightarrow> int \<Rightarrow> bool" where
  "nan_gt a k = (case a of None \<Rightarrow> False | Some x \<Rightarrow> x > k)"

definition nan_lt :: "int option \<Rightarrow> int \<Rightarrow> bool" where
  "nan_lt a k = (case a of None \<Rightarrow> False | Some x \<Rightarrow> x < k)"

definition nan_eq :: "int option \<Rightarrow> int \<Rightarrow> bool" where
  "nan_eq a k = (case a of None \<Rightarrow> False | Some x \<Rightarrow> x = k)"

text \<open>
  The loop of \<open>validateCreditCard\<close>. It walks the cleaned string from its last
  character to its first, so the list it is given is the reversed string; \<open>sm\<close>
  (the source's \<open>sum\<close>) and \<open>isEven\<close> are the loop's variables.
\<close>

fun luhn_loop :: "string \<Rightarrow> int option \<Rightarrow> bool \<Rightarrow> int option" where
  "luhn_loop [] sm isEven = sm"
| "luhn_loop (c # cs) sm isEven =
     (let digit = parseInt10 [c];
          digit2 = (if isEven
                    then (let d = map_option (\<lambda>x. x * 2) digit
                          in if nan_gt d 9 then map_option (\<lambda>x. x - 9) d else d)
                    else digit)
      in luhn_loop cs (nan_add sm digit2) (\<not> isEven))"

definition validateCreditCard :: "string \<Rightarrow> bool" where
  "validateCreditCard cardNumber =
     (let cleanNumber = filter (\<lambda>c. \<not> (js_space c \<or> c = CHR ''-'')) cardNumber
      in case luhn_loop (rev cleanNumber) (Some 0) False of
           None \<Rightarrow> False
         | Some sm \<Rightarrow> sm mod 10 = 0)"

text \<open>
  The Luhn checksum in the specification's words: counting the digits from the
  right, every second one is doubled, 9 is subtracted from a doubled digit that
  exceeds 9, and everything is summed.
\<close>

definition luhn_term :: "nat \<Rightarrow> int \<Rightarrow> int" where
  "luhn_term j d = (if odd j then (if 2 * d > 9 then 2 * d - 9 else 2 * d) else d)"

definition luhn_checksum :: "string \<Rightarrow> int" where
  "luhn_checksum ds = (\<Sum>j < length ds. luhn_term j (digit_val (rev ds ! j)))"

text \<open>
  The current date, as \<open>new Date()\<close> gives it: \<open>getFullYear()\<close> and \<open>getMonth()\<close>
  (0 for January).
\<close>

record clock =
  fullYear :: nat
  monthIndex :: nat

definition expiry_month_part :: "string \<Rightarrow> string" where
  "expiry_month_part expiryDate = hd (split_on (CHR ''/'') expiryDate)"

text \<open>
  The second piece of the split; when there is none the variable is \<open>undefined\<close>,
  which \<open>parseInt\<close> reads as the string "undefined".
\<close>

definition expiry_year_part :: "string \<Rightarrow> string" where
  "expiry_year_part expiryDate =
     (case split_on (CHR ''/'') expiryDate of
        m # y # rest \<Rightarrow> y
      | _ \<Rightarrow> ''undefined'')"

definition validateExpiryDate :: "clock \<Rightarrow> string \<Rightarrow> bool" where
  "validateExpiryDate now expiryDate =
     (let currentYear = int (fullYear now mod 100);
          currentMonth = int (monthIndex now) + 1;
          expiryYear = parseInt10 (expiry_year_part expiryDate);
          expiryMonth = parseInt10 (expiry_month_part expiryDate)
      in if nan_lt expiryYear currentYear
            \<or> (nan_eq expiryYear currentYear \<and> nan_lt expiryMonth currentMonth)
         then False else True)"


text \<open>
  \<open>/^\d{3,4}$/.test(cvv)\<close>. The test reads its argument as a string: a string
  matches when it is three or four digits; a number prints as such a string
  when it is an integer from 100 to 9999; an array of one element prints as that
  element does (\<open>null\<close> and \<open>undefined\<close> print as the empty string); nothing else
  prints as digits only.
\<close>

definition cvv_digits :: "string \<Rightarrow> bool" where
  "cvv_digits s = ((length s = 3 \<or> length s = 4) \<and> list_all is_digit s)"

fun validateCVV :: "jsval \<Rightarrow> bool" where
  "validateCVV (JStr s) = cvv_digits s"
| "validateCVV (JNum (Fin q)) = (of_int \<lfloor>q\<rfloor> = q \<and> 100 \<le> q \<and> q \<le> 9999)"
| "validateCVV (JArr [x]) =
     (case x of JUndefined \<Rightarrow> False | JNull \<Rightarrow> False | _ \<Rightarrow> validateCVV x)"
| "validateCVV v = False"

section \<open>Responses and errors\<close>

text \<open>
  A response body is one of the JSON shapes the code sends: the envelope
  \<open>{success, error}\<close>, the success envelope \<open>{success: true, data: {id, status,
  amount, currency}}\<close>, the error handler's \<open>{error: {message, status, timestamp,
  path}}\<close> (the timestamp is left out), or what the rate-limit package sends when
  no \<open>message\<close> is configured.
\<close>

datatype resp_body =
    Envelope bool string
  | PaymentData string string jsnum string
  | ErrorEnvelope string nat string
  | LibraryDefault

record response =
  res_status :: nat
  res_body :: resp_body

text \<open>
  A thrown or rejected error, as far as the error handler reads it: \<open>err.name\<close>,
  \<open>err.message\<close> and \<open>err.status\<close> (\<open>None\<close> when the property is missing).
\<close>

record js_error =
  err_name :: string
  err_message :: "string option"
  err_status :: "nat option"

text \<open>
  A TypeError thrown by the runtime. The wording of its message is the
  JavaScript engine's; the strings used below stand for it.
\<close>

definition TypeError :: "string \<Rightarrow> js_error" where
  "TypeError msg = \<lparr>err_name = ''TypeError'', err_message = Some msg, err_status = None\<rparr>"

text \<open>What a middleware does with a request: answer it, call \<open>next()\<close>, or throw.\<close>

datatype mw_result = Halt response | Next | Throw js_error

section \<open>Request validator (src/middleware/validation.js)\<close>

definition bad_request :: "string \<Rightarrow> mw_result" where
  "bad_request msg = Halt \<lparr>res_status = 400, res_body = Envelope False msg\<rparr>"

fun join_comma :: "string list \<Rightarrow> string" where
  "join_comma [] = []"
| "join_comma [x] = x"
| "join_comma (x # y # ys) = x @ '', '' @ join_comma (y # ys)"

definition validCurrencies :: "string list" where
  "validCurrencies = [''USD'', ''EUR'', ''GBP'']"

definition validPaymentMethods :: "string list" where
  "validPaymentMethods = [''credit_card'', ''bank_transfer'']"

text \<open>
  The card checks of the credit-card branch, reached with all three fields truthy.
  \<open>cardNumber.replace\<close> and \<open>expiryDate.split\<close> exist on strings only: on any other
  value the call throws a TypeError.
\<close>

definition validate_card :: "clock \<Rightarrow> jsval \<Rightarrow> jsval \<Rightarrow> jsval \<Rightarrow> mw_result" where
  "validate_card now cardNumber expiryDate cvv =
     (case cardNumber of
        JStr cn \<Rightarrow>
          if \<not> validateCreditCard cn then bad_request ''Invalid card number''
          else (case expiryDate of
                  JStr ed \<Rightarrow>
                    if \<not> validateExpiryDate now ed
                    then bad_request ''Card has expired or invalid expiry date''
                    else if \<not> validateCVV cvv then bad_request ''Invalid CVV''
                    else Next
                | _ \<Rightarrow> Throw (TypeError ''expiryDate.split is not a function''))
      | _ \<Rightarrow> Throw (TypeError ''cardNumber.replace is not a function''))"

text \<open>
  \<open>validatePayment\<close>, on \<open>req.body\<close>. The logging calls are left out. The body
  parsers always leave an object in \<open>req.body\<close>; destructuring \<open>undefined\<close> or
  \<open>null\<close> would throw.
\<close>

definition validatePayment :: "clock \<Rightarrow> jsval \<Rightarrow> mw_result" where
  "validatePayment now reqBody =
     (if nullish reqBody then Throw (TypeError ''Cannot destructure property amount of req.body'')
      else
        let amount = get_prop reqBody ''amount'';
            currency = get_prop reqBody ''currency'';
            paymentMethod = get_prop reqBody ''paymentMethod'';
            cardDetails = get_prop reqBody ''cardDetails''
        in
        if \<not> truthy amount \<or> \<not> truthy currency \<or> \<not> truthy paymentMethod
        then bad_request ''Missing required fields: amount, currency, and paymentMethod are required''
        else if (case amount of JNum n \<Rightarrow> num_le_zero n | _ \<Rightarrow> True)
        then bad_request ''Amount must be a positive number''
        else if currency \<notin> set (map JStr validCurrencies)
        then bad_request (''Currency must be one of: '' @ join_comma validCurrencies)
        else if paymentMethod \<notin> set (map JStr validPaymentMethods)
        then bad_request (''Payment method must be one of: '' @ join_comma validPaymentMethods)
        else if paymentMethod = JStr ''credit_card''
        then
          if \<not> truthy cardDetails
          then bad_request ''Card details are required for credit card payments''
          else
            let cardNumber = get_prop cardDetails ''cardNumber'';
                expiryDate = get_prop cardDetails ''expiryDate'';
                cvv = get_prop cardDetails ''cvv''
            in
            if \<not> truthy cardNumber \<or> \<not> truthy expiryDate \<or> \<not> truthy cvv
            then bad_request ''Card number, expiry date, and CVV are required''
            else validate_card now cardNumber expiryDate cvv
        else Next)"

section \<open>Error handler (src/middleware/errorHandler.js)\<close>

text \<open>
  \<open>errorHandler\<close>, given \<open>process.env.NODE_ENV\<close>, the error and \<open>req.path\<close>.
  \<open>err.status || 500\<close> and \<open>err.message || 'Internal Server Error'\<close> take the
  default when the property is missing, 0 or the empty string. Logging is left
  out.
\<close>

definition errorHandler :: "string option \<Rightarrow> js_error \<Rightarrow> string \<Rightarrow> response" where
  "errorHandler node_env err path =
     (let status0 = (case err_status err of
                       None \<Rightarrow> 500
                     | Some s \<Rightarrow> if s = 0 then 500 else s);
          message0 = (case err_message err of
                        None \<Rightarrow> ''Internal Server Error''
                      | Some m \<Rightarrow> if m = [] then ''Internal Server Error'' else m);
          status1 = (if err_name err = ''ValidationError'' then 400
                     else if err_name err = ''UnauthorizedError'' then 401
                     else if err_name err = ''ForbiddenError'' then 403
                     else status0);
          message1 = (if err_name err = ''ValidationError'' then ''Validation Error''
                      else if err_name err = ''UnauthorizedError'' then ''Unauthorized''
                      else if err_name err = ''ForbiddenError'' then ''Forbidden''
                      else message0);
          message2 = (if node_env = Some ''production'' \<and> status1 = 500
                      then ''Internal Server Error'' else message1)
      in \<lparr>res_status = status1, res_body = ErrorEnvelope message2 status1 path\<rparr>)"

section \<open>Rate limiters (src/middleware/rateLimit.js, src/app.js)\<close>

text \<open>
  Modelled from the spec: the counting of the rate limiters is done by the
  third-party package \<open>express-rate-limit\<close>, which is not among the sources; only
  the options passed to it are. Following the specification (sections 3 and 4.3),
  a limiter keeps, per client IP, the number of requests in a fixed window and
  the time the window ends; the entry is created on the first request of a
  window and starts again once the window is over. A request is counted, and
  when the count exceeds the limit it is answered 429 with the limiter's message.
\<close>

record limiter_options =
  windowMs :: nat
  max_hits :: nat
  message :: "resp_body option"

type_synonym store = "string \<Rightarrow> (nat \<times> nat) option"

definition hit :: "limiter_options \<Rightarrow> store \<Rightarrow> string \<Rightarrow> nat \<Rightarrow> nat \<times> nat" where
  "hit opts st key now =
     (case st key of
        None \<Rightarrow> (1, now + windowMs opts)
      | Some (n, reset) \<Rightarrow> if now < reset then (Suc n, reset) else (1, now + windowMs opts))"

definition rate_limit ::
  "limiter_options \<Rightarrow> store \<Rightarrow> string \<Rightarrow> nat \<Rightarrow> store \<times> response option" where
  "rate_limit opts st key now =
     (let entry = hit opts st key now
      in (st(key \<mapsto> entry),
          if fst entry > max_hits opts
          then Some \<lparr>res_status = 429,
                     res_body = (case message opts of Some m \<Rightarrow> m | None \<Rightarrow> LibraryDefault)\<rparr>
          else None))"

text \<open>The options as the sources give them.\<close>

definition paymentLimiter :: limiter_options where
  "paymentLimiter =
     \<lparr>windowMs = 15 * 60 * 1000, max_hits = 100,
      message = Some (Envelope False ''Too many payment requests, please try again later'')\<rparr>"

definition failedPaymentLimiter :: limiter_options where
  "failedPaymentLimiter =
     \<lparr>windowMs = 60 * 60 * 1000, max_hits = 5,
      message = Some (Envelope False ''Too many failed payment attempts, please try again later'')\<rparr>"

text \<open>The limiter of \<open>app.js\<close>, applied to every request: no message is configured.\<close>

definition limiter :: limiter_options where
  "limiter = \<lparr>windowMs = 15 * 60 * 1000, max_hits = 100, message = None\<rparr>"

section \<open>Gateway client (src/services/stripeService.js)\<close>

text \<open>
  The payment gateway is an external service: it is a parameter of the model,
  three functions that either reject with an error or return a result.
\<close>

record card_params =
  cp_number :: jsval
  cp_exp_month :: "int option"
  cp_exp_year :: "int option"
  cp_cvc :: jsval

record intent_params =
  ip_amount :: jsnum
  ip_currency :: string
  ip_payment_method :: string
  ip_confirm :: bool
  ip_automatic_enabled :: bool
  ip_allow_redirects :: string

record payment_intent =
  pi_id :: string
  pi_status :: string
  pi_amount :: jsnum
  pi_currency :: string

record gateway =
  paymentMethods_create :: "card_params \<Rightarrow> js_error + string"
  paymentIntents_create :: "intent_params \<Rightarrow> js_error + payment_intent"
  paymentIntents_retrieve :: "string \<Rightarrow> js_error + payment_intent"

datatype gw_call =
    CreatePaymentMethod card_params
  | CreatePaymentIntent intent_params
  | RetrievePaymentIntent string

text \<open>\<open>toLowerCase\<close>, on the letters A to Z.\<close>

definition to_lower_char :: "char \<Rightarrow> char" where
  "to_lower_char c =
     (let n = (of_char c :: nat) in if 65 \<le> n \<and> n \<le> 90 then char_of (n + 32) else c)"

text \<open>The parameters \<open>createPaymentIntent\<close> sends for a numeric amount.\<close>

definition intent_request :: "jsnum \<Rightarrow> string \<Rightarrow> string \<Rightarrow> intent_params" where
  "intent_request amount currency paymentMethod =
     \<lparr>ip_amount = math_round (times100 amount),
      ip_currency = map to_lower_char currency,
      ip_payment_method = paymentMethod,
      ip_confirm = True,
      ip_automatic_enabled = True,
      ip_allow_redirects = ''never''\<rparr>"

section \<open>Payment routes (src/routes/payments.js)\<close>

text \<open>
  What happens while a request is handled, in program order: a limiter counts
  the request, the gateway is called, a response is written, an error is passed
  to the error handler with \<open>next(error)\<close>.
\<close>

datatype tier = AppWide | General | FailedAttempts

datatype event =
    LimiterHit tier string
  | GatewayCall gw_call
  | Respond response
  | ToErrorHandler js_error

text \<open>
  \<open>parseInt(s)\<close> with no radix: as \<open>parseInt(s, 10)\<close>, but a string that starts
  (after white space and sign) with \<open>0x\<close> or \<open>0X\<close> is read as hexadecimal.
\<close>

definition is_hex_digit :: "char \<Rightarrow> bool" where
  "is_hex_digit c =
     (let n = (of_char c :: nat)
      in (48 \<le> n \<and> n \<le> 57) \<or> (65 \<le> n \<and> n \<le> 70) \<or> (97 \<le> n \<and> n \<le> 102))"

definition hex_digit_val :: "char \<Rightarrow> int" where
  "hex_digit_val c =
     (let n = (of_char c :: nat)
      in if n \<le> 57 then int n - 48 else if n \<le> 70 then int n - 55 else int n - 87)"

fun hex_val :: "int \<Rightarrow> string \<Rightarrow> int" where
  "hex_val acc [] = acc"
| "hex_val acc (c # cs) = hex_val (16 * acc + hex_digit_val c) cs"

definition parseInt :: "string \<Rightarrow> int option" where
  "parseInt s =
     (let t = dropWhile js_space s;
          neg = (t \<noteq> [] \<and> hd t = CHR ''-'');
          u = (if t \<noteq> [] \<and> (hd t = CHR ''-'' \<or> hd t = CHR ''+'') then tl t else t)
      in if take 2 u = ''0x'' \<or> take 2 u = ''0X''
         then (let hs = takeWhile is_hex_digit (drop 2 u)
               in if hs = [] then None
                  else Some (if neg then - hex_val 0 hs else hex_val 0 hs))
         else parseInt10 s)"

text \<open>The element of a split at an index, \<open>undefined\<close> read by \<open>parseInt\<close> when missing.\<close>

definition piece :: "string list \<Rightarrow> nat \<Rightarrow> string" where
  "piece ps i = (if i < length ps then ps ! i else ''undefined'')"

text \<open>
  The \<open>try\<close> block of the POST handler: the gateway calls it made, and either the
  error that was thrown or the 201 response. The argument of
  \<open>paymentMethods.create\<close> is built first: reading \<open>cardDetails.cardNumber\<close> throws
  when \<open>cardDetails\<close> is \<open>undefined\<close> or \<open>null\<close>, and \<open>expiryDate.split\<close> throws
  unless \<open>expiryDate\<close> is a string. \<open>validatePayment\<close> lets only a number through
  as \<open>amount\<close>; the conversion of other values to a number is not modelled (NaN
  stands for it), and \<open>currency.toLowerCase\<close> throws unless \<open>currency\<close> is a string.
\<close>

definition try_payment :: "gateway \<Rightarrow> jsval \<Rightarrow> gw_call list \<times> (js_error + response)" where
  "try_payment gw reqBody =
     (let amount = get_prop reqBody ''amount'';
          currency = get_prop reqBody ''currency'';
          cardDetails = get_prop reqBody ''cardDetails''
      in
      if nullish cardDetails
      then ([], Inl (TypeError ''Cannot read properties of undefined (reading cardNumber)''))
      else
        (case get_prop cardDetails ''expiryDate'' of
           JStr ed \<Rightarrow>
             (let card = \<lparr>cp_number = get_prop cardDetails ''cardNumber'',
                          cp_exp_month = parseInt (piece (split_on (CHR ''/'') ed) 0),
                          cp_exp_year = parseInt (piece (split_on (CHR ''/'') ed) 1),
                          cp_cvc = get_prop cardDetails ''cvv''\<rparr>
              in case paymentMethods_create gw card of
                   Inl err \<Rightarrow> ([CreatePaymentMethod card], Inl err)
                 | Inr pm_id \<Rightarrow>
                     (case currency of
                        JStr cur \<Rightarrow>
                          (let params = intent_request
                                          (case amount of JNum n \<Rightarrow> n | _ \<Rightarrow> NaN) cur pm_id
                           in case paymentIntents_create gw params of
                                Inl err \<Rightarrow>
                                  ([CreatePaymentMethod card, CreatePaymentIntent params], Inl err)
                              | Inr paymentIntent \<Rightarrow>
                                  ([CreatePaymentMethod card, CreatePaymentIntent params],
                                   Inr \<lparr>res_status = 201,
                                        res_body = PaymentData (pi_id paymentIntent)
                                                     (pi_status paymentIntent)
                                                     (div100 (pi_amount paymentIntent))
                                                     (pi_currency paymentIntent)\<rparr>))
                      | _ \<Rightarrow> ([CreatePaymentMethod card],
                              Inl (TypeError ''currency.toLowerCase is not a function''))))
         | _ \<Rightarrow> ([], Inl (TypeError ''cardDetails.expiryDate.split is not a function''))))"

text \<open>
  The POST handler with its \<open>catch\<close> block: on an error the failed-attempt
  limiter is invoked for the client's IP, then the error goes to the error
  handler with \<open>next(error)\<close>. The state is the failed-attempt store. The limiter
  is handed the handler's own \<open>next\<close>; the call it makes to it when it lets the
  request pass is not modelled.
\<close>

definition post_handler ::
  "gateway \<Rightarrow> store \<Rightarrow> string \<Rightarrow> nat \<Rightarrow> jsval \<Rightarrow> event list \<times> store" where
  "post_handler gw failed ip now reqBody =
     (case try_payment gw reqBody of
        (calls, Inr res) \<Rightarrow> (map GatewayCall calls @ [Respond res], failed)
      | (calls, Inl err) \<Rightarrow>
          (let limited = rate_limit failedPaymentLimiter failed ip now
           in (map GatewayCall calls @ [LimiterHit FailedAttempts ip]
                 @ (case snd limited of Some res \<Rightarrow> [Respond res] | None \<Rightarrow> [])
                 @ [ToErrorHandler err],
               fst limited)))"

definition get_handler :: "gateway \<Rightarrow> string \<Rightarrow> event list" where
  "get_handler gw paymentIntentId =
     (case paymentIntents_retrieve gw paymentIntentId of
        Inr paymentIntent \<Rightarrow>
          [GatewayCall (RetrievePaymentIntent paymentIntentId),
           Respond \<lparr>res_status = 200,
                    res_body = PaymentData (pi_id paymentIntent) (pi_status paymentIntent)
                                 (div100 (pi_amount paymentIntent)) (pi_currency paymentIntent)\<rparr>]
      | Inl err \<Rightarrow>
          [GatewayCall (RetrievePaymentIntent paymentIntentId), ToErrorHandler err])"

text \<open>A request to the payment routes, and the three limiter stores of the process.\<close>

datatype route = PostPayment jsval | GetPayment string

record request =
  req_ip :: string
  req_time :: nat
  req_clock :: clock
  req_path :: string
  req_route :: route

record app_state =
  app_store :: store
  payment_store :: store
  failed_store :: store

text \<open>
  The router: \<open>router.use(paymentLimiter)\<close> first, then the route. POST runs
  \<open>validatePayment\<close> before its handler; an exception thrown by a middleware goes
  to the error handler.
\<close>

definition payment_router :: "gateway \<Rightarrow> app_state \<Rightarrow> request \<Rightarrow> event list \<times> app_state" where
  "payment_router gw st req =
     (let limited = rate_limit paymentLimiter (payment_store st) (req_ip req) (req_time req);
          st1 = st\<lparr>payment_store := fst limited\<rparr>;
          counted = LimiterHit General (req_ip req)
      in case snd limited of
           Some res \<Rightarrow> ([counted, Respond res], st1)
         | None \<Rightarrow>
             (case req_route req of
                PostPayment reqBody \<Rightarrow>
                  (case validatePayment (req_clock req) reqBody of
                     Halt res \<Rightarrow> ([counted, Respond res], st1)
                   | Throw err \<Rightarrow> ([counted, ToErrorHandler err], st1)
                   | Next \<Rightarrow>
                       (let handled = post_handler gw (failed_store st1) (req_ip req)
                                        (req_time req) reqBody
                        in (counted # fst handled, st1\<lparr>failed_store := snd handled\<rparr>)))
              | GetPayment paymentIntentId \<Rightarrow>
                  (counted # get_handler gw paymentIntentId, st1)))"

section \<open>Application (src/app.js)\<close>

text \<open>
  The error handler is the last layer of the application: the error passed on
  with \<open>next(error)\<close> reaches it and it writes a response.
\<close>

fun handle_errors :: "string option \<Rightarrow> string \<Rightarrow> event list \<Rightarrow> event list" where
  "handle_errors node_env path [] = []"
| "handle_errors node_env path (ToErrorHandler err # evs) =
     ToErrorHandler err # Respond (errorHandler node_env err path) # handle_errors node_env path evs"
| "handle_errors node_env path (ev # evs) = ev # handle_errors node_env path evs"

text \<open>
  A request to \<open>/api/v1/payments\<close> through the application: the limiter of
  \<open>app.js\<close> is applied before the routes. The other routes of the application
  and the security and parsing middleware are not modelled.
\<close>

definition app_handle ::
  "string option \<Rightarrow> gateway \<Rightarrow> app_state \<Rightarrow> request \<Rightarrow> event list \<times> app_state" where
  "app_handle node_env gw st req =
     (let limited = rate_limit limiter (app_store st) (req_ip req) (req_time req);
          st1 = st\<lparr>app_store := fst limited\<rparr>;
          counted = LimiterHit AppWide (req_ip req)
      in case snd limited of
           Some res \<Rightarrow> ([counted, Respond res], st1)
         | None \<Rightarrow>
             (let routed = payment_router gw st1 req
              in (counted # handle_errors node_env (req_path req) (fst routed), snd routed)))"

text \<open>The response the client receives: the first one written.\<close>

fun wire_response :: "event list \<Rightarrow> response option" where
  "wire_response [] = None"
| "wire_response (Respond res # evs) = Some res"
| "wire_response (ev # evs) = wire_response evs"

text \<open>Requests handled one after the other; the result lists each request's events.\<close>

fun serve ::
  "string option \<Rightarrow> gateway \<Rightarrow> app_state \<Rightarrow> request list \<Rightarrow> event list list \<times> app_state" where
  "serve node_env gw st [] = ([], st)"
| "serve node_env gw st (req # reqs) =
     (let handled = app_handle node_env gw st req;
          rest = serve node_env gw (snd handled) reqs
      in (fst handled # fst rest, snd rest))"

fun serve_router ::
  "gateway \<Rightarrow> app_state \<Rightarrow> request list \<Rightarrow> event list list \<times> app_state" where
  "serve_router gw st [] = ([], st)"
| "serve_router gw st (req # reqs) =
     (let handled = payment_router gw st req;
          rest = serve_router gw (snd handled) reqs
      in (fst handled # fst rest, snd rest))"

section \<open>Notions used in the statements\<close>

text \<open>The number that two digit characters encode, as MM or YY do.\<close>

definition two_digits :: "char \<Rightarrow> char \<Rightarrow> int" where
  "two_digits a b = 10 * digit_val a + digit_val b"

text \<open>A positive number: a number greater than 0, \<open>Infinity\<close> included.\<close>

fun positive_number :: "jsval \<Rightarrow> bool" where
  "positive_number (JNum (Fin q)) = (q > 0)"
| "positive_number (JNum PosInf) = True"
| "positive_number v = False"

text \<open>The message a response body carries: \<open>error\<close> of the envelope, \<open>error.message\<close>.\<close>

fun body_message :: "resp_body \<Rightarrow> string option" where
  "body_message (Envelope ok msg) = Some msg"
| "body_message (ErrorEnvelope msg st path) = Some msg"
| "body_message b = None"

text \<open>The stores of a process that has just started.\<close>

definition fresh_state :: app_state where
  "fresh_state = \<lparr>app_store = Map.empty, payment_store = Map.empty, failed_store = Map.empty\<rparr>"

text \<open>
  An example gateway for the concrete evaluations below: it accepts every card,
  confirms every intent with the amount and currency it was sent, and knows no
  payment intent, rejecting a retrieval with an error that has a message and no
  \<open>status\<close> property, as the errors of the Stripe client do (they carry
  \<open>statusCode\<close>).
\<close>

definition example_gateway :: gateway where
  "example_gateway =
     \<lparr>paymentMethods_create = (\<lambda>card. Inr ''pm_1''),
      paymentIntents_create =
        (\<lambda>p. Inr \<lparr>pi_id = ''pi_1'', pi_status = ''succeeded'',
                    pi_amount = ip_amount p, pi_currency = ip_currency p\<rparr>),
      paymentIntents_retrieve =
        (\<lambda>pid. Inl \<lparr>err_name = ''StripeInvalidRequestError'',
                      err_message = Some (''No such payment_intent: '' @ pid),
                      err_status = None\<rparr>)\<rparr>"

text \<open>
  An example request body: a credit-card payment in USD with the test card
  number, and a request carrying it (or another route) from one client in
  November 2026.
\<close>

definition example_body :: "jsval \<Rightarrow> jsval" where
  "example_body amount =
     JObj [(''amount'', amount), (''currency'', JStr ''USD''),
           (''paymentMethod'', JStr ''credit_card''),
           (''cardDetails'', JObj [(''cardNumber'', JStr ''4242424242424242''),
                                   (''expiryDate'', JStr ''12/30''),
                                   (''cvv'', JStr ''123'')])]"

definition example_request :: "route \<Rightarrow> request" where
  "example_request r =
     \<lparr>req_ip = ''10.0.0.1'', req_time = 0,
      req_clock = \<lparr>fullYear = 2026, monthIndex = 10\<rparr>,
      req_path = ''/api/v1/payments'', req_route = r\<rparr>"



section \<open>Properties\<close>

lemma parseInt10_digit: "is_digit c \<Longrightarrow> parseInt10 [c] = Some (digit_val c)"
  by (auto simp: parseInt10_def is_digit_def js_space_def Let_def)

subsection \<open>The card number check\<close>

lemma luhn_term_step:
  "luhn_term (Suc j + (if ev then 1 else 0)) d = luhn_term (j + (if \<not> ev then 1 else 0)) d"
  by (simp add: luhn_term_def)

lemma luhn_loop_step:
  "is_digit c \<Longrightarrow>
   luhn_loop (c # cs) (Some a) ev =
   luhn_loop cs (Some (a + luhn_term (if ev then 1 else 0) (digit_val c))) (\<not> ev)"
  by (simp add: parseInt10_digit nan_add_def nan_gt_def luhn_term_def Let_def mult.commute)

text \<open>
  On digits the loop never meets NaN, and what it adds to its running total is
  the specification's sum, the parity of the first position given by \<open>isEven\<close>.
\<close>

lemma luhn_loop_digits:
  "list_all is_digit xs \<Longrightarrow>
   luhn_loop xs (Some a) ev =
     Some (a + (\<Sum>j < length xs. luhn_term (j + (if ev then 1 else 0)) (digit_val (xs ! j))))"
proof (induction xs arbitrary: a ev)
  case Nil
  then show ?case by simp
next
  case (Cons c cs)
  then have d: "is_digit c" and ds: "list_all is_digit cs" by simp_all
  have shift:
    "(\<Sum>j < length (c # cs). luhn_term (j + (if ev then 1 else 0)) (digit_val ((c # cs) ! j)))
      = luhn_term (if ev then 1 else 0) (digit_val c)
        + (\<Sum>j < length cs. luhn_term (j + (if \<not> ev then 1 else 0)) (digit_val (cs ! j)))"
    using luhn_term_step [of _ ev] by (simp add: sum.lessThan_Suc_shift del: sum.lessThan_Suc)
  show ?case
    unfolding luhn_loop_step [OF d] Cons.IH [OF ds] shift by (simp add: add.assoc)
qed

lemma filter_clean:
  "\<forall>c \<in> set s. is_digit c \<or> c = CHR '' '' \<or> c = CHR ''-'' \<Longrightarrow>
   filter (\<lambda>c. \<not> (js_space c \<or> c = CHR ''-'')) s
     = filter (\<lambda>c. c \<noteq> CHR '' '' \<and> c \<noteq> CHR ''-'') s"
  by (rule filter_cong) (auto simp: is_digit_def js_space_def Let_def)

lemma checksum_4242: "luhn_checksum ''4242424242424242'' = 80"
  by (simp add: luhn_checksum_def luhn_term_def digit_val_def lessThan_nat_numeral lessThan_Suc)

lemma checksum_4241: "luhn_checksum ''4242424242424241'' = 79"
  by (simp add: luhn_checksum_def luhn_term_def digit_val_def lessThan_nat_numeral lessThan_Suc)

text \<open>
  Claim C6. On an input made of digits, spaces and dashes, \<open>validateCreditCard\<close>
  (the specification's \<open>validateCardNumber\<close>) returns true if and only if the Luhn
  checksum of the digits that remain once spaces and dashes are removed is 0
  modulo 10. The checksum is \<open>luhn_checksum\<close>, written from the specification's
  words; the function is the source's loop. Every 16-digit string is such an
  input, so the function accepts exactly those that satisfy the checksum.
\<close>

theorem C6_validateCreditCard_luhn:
  assumes "\<forall>c \<in> set s. is_digit c \<or> c = CHR '' '' \<or> c = CHR ''-''"
  shows "validateCreditCard s \<longleftrightarrow>
         luhn_checksum (filter (\<lambda>c. c \<noteq> CHR '' '' \<and> c \<noteq> CHR ''-'') s) mod 10 = 0"
proof -
  let ?clean = "filter (\<lambda>c. c \<noteq> CHR '' '' \<and> c \<noteq> CHR ''-'') s"
  have dig: "list_all is_digit (rev ?clean)"
    using assms by (auto simp: list_all_iff)
  show ?thesis
    unfolding validateCreditCard_def Let_def filter_clean [OF assms] luhn_loop_digits [OF dig]
    by (simp add: luhn_checksum_def)
qed

text \<open>
  The claim's examples: "4242424242424242" (checksum 80) is accepted, with or
  without separators, and "4242424242424241" (checksum 79) is refused.
\<close>

theorem C6_validateCreditCard_luhn_witness:
  "validateCreditCard ''4242 4242-4242 4242''
   \<and> luhn_checksum ''4242424242424242'' mod 10 = 0
   \<and> validateCreditCard ''4242424242424242''
   \<and> \<not> validateCreditCard ''4242424242424241''
   \<and> luhn_checksum ''4242424242424241'' mod 10 \<noteq> 0"
  using C6_validateCreditCard_luhn [of "''4242 4242-4242 4242''"]
        C6_validateCreditCard_luhn [of "''4242424242424242''"]
        C6_validateCreditCard_luhn [of "''4242424242424241''"]
  by (simp add: is_digit_def checksum_4242 checksum_4241)

subsection \<open>The expiry check\<close>


lemma parseInt10_digits:
  "ds \<noteq> [] \<Longrightarrow> list_all is_digit ds \<Longrightarrow> parseInt10 ds = Some (digits_val 0 ds)"
proof -
  assume ne: "ds \<noteq> []" and dig: "list_all is_digit ds"
  then obtain c cs where ds: "ds = c # cs" by (cases ds) auto
  with dig have c: "is_digit c" by simp
  have sp: "\<not> js_space c" and sg: "c \<noteq> CHR ''-''" "c \<noteq> CHR ''+''"
    using c by (auto simp: is_digit_def js_space_def Let_def)
  have tw: "takeWhile is_digit ds = ds"
    using dig by (simp add: list_all_iff)
  have dw: "dropWhile js_space ds = ds" using sp ds by simp
  show ?thesis
    unfolding parseInt10_def Let_def dw using sg ds tw by simp
qed

lemma no_slash_digit: "is_digit c \<Longrightarrow> c \<noteq> CHR ''/''"
  by (auto simp: is_digit_def)

lemma parts_MMYY:
  assumes "is_digit m1" "is_digit m2" "is_digit y1" "is_digit y2"
  shows "split_on (CHR ''/'') [m1, m2, CHR ''/'', y1, y2] = [[m1, m2], [y1, y2]]"
  using assms by (simp add: no_slash_digit)



text \<open>
  Claim C7. Given an MM/YY string (two digits, a slash, two digits) and the
  current date, \<open>validateExpiryDate\<close> (the specification's \<open>validateExpiry\<close>)
  returns false exactly when the encoded two-digit year is strictly less than
  the current year modulo 100, or the two are equal and the encoded month is
  strictly less than the current month (\<open>getMonth() + 1\<close>); otherwise it returns
  true. The comparison is the two-digit one the claim names: "12/20" is refused
  whenever the current two-digit year exceeds 20, as it does from 2021 to 2099.
\<close>

theorem C7_validateExpiryDate_MMYY:
  assumes "is_digit m1" "is_digit m2" "is_digit y1" "is_digit y2"
  shows "validateExpiryDate now [m1, m2, CHR ''/'', y1, y2] \<longleftrightarrow>
         \<not> (two_digits y1 y2 < int (fullYear now mod 100)
            \<or> (two_digits y1 y2 = int (fullYear now mod 100)
                \<and> two_digits m1 m2 < int (monthIndex now) + 1))"
proof -
  have y: "parseInt10 [y1, y2] = Some (two_digits y1 y2)"
    using assms by (simp add: parseInt10_digits two_digits_def)
  have m: "parseInt10 [m1, m2] = Some (two_digits m1 m2)"
    using assms by (simp add: parseInt10_digits two_digits_def)
  have yp: "expiry_year_part [m1, m2, CHR ''/'', y1, y2] = [y1, y2]"
    unfolding expiry_year_part_def parts_MMYY [OF assms] by simp
  have mp: "expiry_month_part [m1, m2, CHR ''/'', y1, y2] = [m1, m2]"
    unfolding expiry_month_part_def parts_MMYY [OF assms] by simp
  show ?thesis
    unfolding validateExpiryDate_def yp mp y m
    by (simp add: nan_lt_def nan_eq_def Let_def)
qed

text \<open>
  "12/20" read in January 2021 and in December 2099 has expired; read in
  November 2026, "12/30" and "11/26" are valid and "10/26" has expired.
\<close>

theorem C7_validateExpiryDate_MMYY_witness:
  "\<not> validateExpiryDate \<lparr>fullYear = 2021, monthIndex = 0\<rparr> ''12/20''
   \<and> \<not> validateExpiryDate \<lparr>fullYear = 2099, monthIndex = 11\<rparr> ''12/20''
   \<and> validateExpiryDate \<lparr>fullYear = 2026, monthIndex = 10\<rparr> ''12/30''
   \<and> validateExpiryDate \<lparr>fullYear = 2026, monthIndex = 10\<rparr> ''11/26''
   \<and> \<not> validateExpiryDate \<lparr>fullYear = 2026, monthIndex = 10\<rparr> ''10/26''"
  using
    C7_validateExpiryDate_MMYY [of "CHR ''1''" "CHR ''2''" "CHR ''2''" "CHR ''0''"
      "\<lparr>fullYear = 2021, monthIndex = 0\<rparr>"]
    C7_validateExpiryDate_MMYY [of "CHR ''1''" "CHR ''2''" "CHR ''2''" "CHR ''0''"
      "\<lparr>fullYear = 2099, monthIndex = 11\<rparr>"]
    C7_validateExpiryDate_MMYY [of "CHR ''1''" "CHR ''2''" "CHR ''3''" "CHR ''0''"
      "\<lparr>fullYear = 2026, monthIndex = 10\<rparr>"]
    C7_validateExpiryDate_MMYY [of "CHR ''1''" "CHR ''1''" "CHR ''2''" "CHR ''6''"
      "\<lparr>fullYear = 2026, monthIndex = 10\<rparr>"]
    C7_validateExpiryDate_MMYY [of "CHR ''1''" "CHR ''0''" "CHR ''2''" "CHR ''6''"
      "\<lparr>fullYear = 2026, monthIndex = 10\<rparr>"]
  by (simp add: is_digit_def two_digits_def digit_val_def)




subsection \<open>The request validator\<close>


lemma positive_number_iff:
  "positive_number v \<longleftrightarrow> \<not> (case v of JNum n \<Rightarrow> num_le_zero n | _ \<Rightarrow> True) \<and> truthy v"
proof (cases v)
  case (JNum n)
  then show ?thesis by (cases n) auto
qed simp_all


text \<open>
  Claim C5, as stated, fails: an amount of 0 is present and is not a positive
  number, yet the check of step 1 is a truthiness check and answers first, with
  the message for missing fields.
\<close>

theorem C5_zero_amount_counterexample:
  "get_prop (JObj [(''amount'', JNum (Fin 0)), (''currency'', JStr ''USD''),
                   (''paymentMethod'', JStr ''credit_card'')]) ''amount'' = JNum (Fin 0)
   \<and> \<not> positive_number (JNum (Fin 0))
   \<and> validatePayment \<lparr>fullYear = 2026, monthIndex = 10\<rparr>
       (JObj [(''amount'', JNum (Fin 0)), (''currency'', JStr ''USD''),
              (''paymentMethod'', JStr ''credit_card'')])
     = Halt \<lparr>res_status = 400,
             res_body = Envelope False
               ''Missing required fields: amount, currency, and paymentMethod are required''\<rparr>"
  by (simp add: validatePayment_def nullish_def bad_request_def)

text \<open>
  Claim C5, amended. For every request body in which amount, currency and
  paymentMethod are all truthy (the check of step 1 passes: none of them is
  missing, \<open>null\<close>, \<open>false\<close>, 0, NaN or the empty string) but amount is not a
  positive number, the validator halts the pipeline and responds 400 with the
  message "Amount must be a positive number".
\<close>

theorem C5_validatePayment_amount:
  assumes "\<not> nullish reqBody"
      and "truthy (get_prop reqBody ''amount'')"
      and "truthy (get_prop reqBody ''currency'')"
      and "truthy (get_prop reqBody ''paymentMethod'')"
      and "\<not> positive_number (get_prop reqBody ''amount'')"
  shows "validatePayment now reqBody =
         Halt \<lparr>res_status = 400, res_body = Envelope False ''Amount must be a positive number''\<rparr>"
proof -
  have "(case get_prop reqBody ''amount'' of JNum n \<Rightarrow> num_le_zero n | _ \<Rightarrow> True)"
    using assms(2,5) by (simp add: positive_number_iff)
  then show ?thesis
    using assms(1-4) by (simp add: validatePayment_def bad_request_def Let_def)
qed

text \<open>The specification's example, an amount of -5, and an amount given as a string.\<close>

theorem C5_validatePayment_amount_witness:
  "validatePayment \<lparr>fullYear = 2026, monthIndex = 10\<rparr>
     (JObj [(''amount'', JNum (Fin (- 5))), (''currency'', JStr ''USD''),
            (''paymentMethod'', JStr ''credit_card'')])
   = Halt \<lparr>res_status = 400, res_body = Envelope False ''Amount must be a positive number''\<rparr>
   \<and> validatePayment \<lparr>fullYear = 2026, monthIndex = 10\<rparr>
     (JObj [(''amount'', JStr ''100''), (''currency'', JStr ''JPY''),
            (''paymentMethod'', JStr ''cash'')])
   = Halt \<lparr>res_status = 400, res_body = Envelope False ''Amount must be a positive number''\<rparr>"
  using
    C5_validatePayment_amount [of
      "JObj [(''amount'', JNum (Fin (- 5))), (''currency'', JStr ''USD''),
             (''paymentMethod'', JStr ''credit_card'')]" "\<lparr>fullYear = 2026, monthIndex = 10\<rparr>"]
    C5_validatePayment_amount [of
      "JObj [(''amount'', JStr ''100''), (''currency'', JStr ''JPY''),
             (''paymentMethod'', JStr ''cash'')]" "\<lparr>fullYear = 2026, monthIndex = 10\<rparr>"]
  by (simp add: nullish_def)

subsection \<open>The error handler\<close>

text \<open>
  Claim C8, as stated, fails: outside production the original message is not
  always passed through. In development an error named \<open>ValidationError\<close> with
  the message "amount is required" is answered with the fixed message
  "Validation Error".
\<close>

theorem C8_fixed_message_counterexample:
  "body_message (res_body (errorHandler (Some ''development'')
      \<lparr>err_name = ''ValidationError'', err_message = Some ''amount is required'',
       err_status = None\<rparr>
      ''/api/v1/payments'')) = Some ''Validation Error''
   \<and> ''Validation Error'' \<noteq> ''amount is required''"
  by (simp add: errorHandler_def Let_def)

text \<open>
  Claim C8, amended. For every error reaching the central error handler: when
  the runtime environment is production and the resolved status is 500, the
  response message is the generic string "Internal Server Error"; in all other
  environments the original error message is passed through unchanged, unless
  the error is named \<open>ValidationError\<close>, \<open>UnauthorizedError\<close> or \<open>ForbiddenError\<close>
  (the message is then "Validation Error", "Unauthorized" or "Forbidden") or
  has no message or an empty one (it is then "Internal Server Error").
\<close>

theorem C8_errorHandler_message:
  "(node_env = Some ''production'' \<and> res_status (errorHandler node_env err path) = 500
      \<longrightarrow> body_message (res_body (errorHandler node_env err path))
          = Some ''Internal Server Error'')
   \<and> (node_env \<noteq> Some ''production''
      \<longrightarrow> body_message (res_body (errorHandler node_env err path))
          = Some (if err_name err = ''ValidationError'' then ''Validation Error''
                  else if err_name err = ''UnauthorizedError'' then ''Unauthorized''
                  else if err_name err = ''ForbiddenError'' then ''Forbidden''
                  else (case err_message err of
                          None \<Rightarrow> ''Internal Server Error''
                        | Some m \<Rightarrow> if m = [] then ''Internal Server Error'' else m)))"
  by (simp add: errorHandler_def Let_def)

text \<open>
  A TypeError in production is answered with the generic message; in
  development its own message is passed through.
\<close>

theorem C8_errorHandler_message_witness:
  "body_message (res_body (errorHandler (Some ''production'')
      (TypeError ''cardNumber.replace is not a function'') ''/api/v1/payments''))
     = Some ''Internal Server Error''
   \<and> body_message (res_body (errorHandler (Some ''development'')
      (TypeError ''cardNumber.replace is not a function'') ''/api/v1/payments''))
     = Some ''cardNumber.replace is not a function''"
  using
    C8_errorHandler_message [of "Some ''production''"
      "TypeError ''cardNumber.replace is not a function''" "''/api/v1/payments''"]
    C8_errorHandler_message [of "Some ''development''"
      "TypeError ''cardNumber.replace is not a function''" "''/api/v1/payments''"]
  by (simp add: TypeError_def errorHandler_def Let_def)

text \<open>
  Claim C2 does not hold of the code. The error handler has no case for an
  unknown payment or a declined card: the status is \<open>err.status\<close> when the error
  carries one and 500 otherwise, and the message "Payment not found" appears
  nowhere. A GET for an id the gateway does not know is answered 500 with the
  gateway's message, and errors named \<open>NotFound\<close> or \<open>GatewayDeclined\<close> that carry
  no \<open>status\<close> resolve to 500.
\<close>

theorem C2_unknown_id_is_500:
  "wire_response (fst (app_handle None example_gateway fresh_state
      \<lparr>req_ip = ''10.0.0.1'', req_time = 0,
       req_clock = \<lparr>fullYear = 2026, monthIndex = 10\<rparr>,
       req_path = ''/api/v1/payments/pi_unknown'',
       req_route = GetPayment ''pi_unknown''\<rparr>))
   = Some \<lparr>res_status = 500,
           res_body = ErrorEnvelope ''No such payment_intent: pi_unknown'' 500
                        ''/api/v1/payments/pi_unknown''\<rparr>
   \<and> res_status (errorHandler None
        \<lparr>err_name = ''NotFound'', err_message = Some ''Payment not found'',
         err_status = None\<rparr> ''/api/v1/payments/pi_unknown'') = 500
   \<and> res_status (errorHandler None
        \<lparr>err_name = ''GatewayDeclined'', err_message = Some ''Your card was declined'',
         err_status = None\<rparr> ''/api/v1/payments'') = 500"
  by (simp add: app_handle_def payment_router_def get_handler_def rate_limit_def hit_def
      limiter_def paymentLimiter_def example_gateway_def fresh_state_def errorHandler_def
      Let_def)

subsection \<open>The pipeline\<close>





lemma rate_limit_store: "fst (rate_limit opts s k t) = s(k \<mapsto> hit opts s k t)"
  by (simp add: rate_limit_def Let_def)



lemma app_handle_blocked:
  "snd (rate_limit limiter (app_store st) (req_ip req) (req_time req)) = Some res \<Longrightarrow>
   fst (app_handle node_env gw st req) = [LimiterHit AppWide (req_ip req), Respond res]"
  by (simp add: app_handle_def Let_def)






subsection \<open>The amount round trip\<close>












subsection \<open>Failed attempts\<close>










subsection \<open>The general limiters\<close>

lemma payment_router_payment_store:
  "payment_store (snd (payment_router gw st req)) =
     (payment_store st)(req_ip req \<mapsto> hit paymentLimiter (payment_store st) (req_ip req) (req_time req))"
  by (simp add: payment_router_def rate_limit_store Let_def
      split: option.splits route.splits mw_result.splits)

lemma payment_router_app_store:
  "app_store (snd (payment_router gw st req)) = app_store st"
  by (simp add: payment_router_def Let_def split: option.splits route.splits mw_result.splits)

lemma app_handle_app_store:
  "app_store (snd (app_handle node_env gw st req)) =
     (app_store st)(req_ip req \<mapsto> hit limiter (app_store st) (req_ip req) (req_time req))"
  by (simp add: app_handle_def rate_limit_store payment_router_app_store Let_def split: option.splits)

lemma hit_live: "s k = Some (n, reset) \<Longrightarrow> t < reset \<Longrightarrow> hit opts s k t = (Suc n, reset)"
  by (simp add: hit_def)

lemma hit_new:
  "s k = None \<or> (\<exists>n reset. s k = Some (n, reset) \<and> reset \<le> t) \<Longrightarrow>
   hit opts s k t = (1, t + windowMs opts)"
  by (auto simp: hit_def)

lemma serve_router_count:
  assumes "\<forall>r \<in> set reqs. req_ip r = ip \<and> req_time r < reset"
    and "payment_store st ip = Some (n, reset)"
  shows "payment_store (snd (serve_router gw st reqs)) ip = Some (n + length reqs, reset)"
  using assms
proof (induction reqs arbitrary: st n)
  case Nil
  then show ?case by simp
next
  case (Cons r reqs)
  then have r: "req_ip r = ip" "req_time r < reset" by simp_all
  have "payment_store (snd (payment_router gw st r)) ip = Some (Suc n, reset)"
    using Cons.prems(2) r by (simp add: payment_router_payment_store hit_live)
  moreover have "\<forall>r \<in> set reqs. req_ip r = ip \<and> req_time r < reset"
    using Cons.prems(1) by simp
  ultimately have "payment_store (snd (serve_router gw (snd (payment_router gw st r)) reqs)) ip
      = Some (Suc n + length reqs, reset)"
    by (rule Cons.IH [rotated])
  then show ?case by (simp add: Let_def)
qed

lemma serve_count:
  assumes "\<forall>r \<in> set reqs. req_ip r = ip \<and> req_time r < reset"
    and "app_store st ip = Some (n, reset)"
  shows "app_store (snd (serve node_env gw st reqs)) ip = Some (n + length reqs, reset)"
  using assms
proof (induction reqs arbitrary: st n)
  case Nil
  then show ?case by simp
next
  case (Cons r reqs)
  then have r: "req_ip r = ip" "req_time r < reset" by simp_all
  have "app_store (snd (app_handle node_env gw st r)) ip = Some (Suc n, reset)"
    using Cons.prems(2) r by (simp add: app_handle_app_store hit_live)
  moreover have "\<forall>r \<in> set reqs. req_ip r = ip \<and> req_time r < reset"
    using Cons.prems(1) by simp
  ultimately have "app_store (snd (serve node_env gw (snd (app_handle node_env gw st r)) reqs)) ip
      = Some (Suc n + length reqs, reset)"
    by (rule Cons.IH [rotated])
  then show ?case by (simp add: Let_def)
qed

lemma payment_router_blocked:
  assumes "payment_store st (req_ip req) = Some (n, reset)" "req_time req < reset" "100 \<le> n"
  shows "fst (payment_router gw st req) =
     [LimiterHit General (req_ip req),
      Respond \<lparr>res_status = 429,
               res_body = Envelope False ''Too many payment requests, please try again later''\<rparr>]"
  using assms
  by (simp add: payment_router_def rate_limit_def hit_live paymentLimiter_def Let_def)

text \<open>
  Claim C4, as stated, fails: the general limiter of the payment routes is not
  the first stage. The application applies its own limiter, with the same
  window and limit and no message, to every request before the routes. After
  100 requests from one client the 101st is answered 429 by that limiter, with
  the package's default body, and never reaches the payment router.
\<close>

theorem C4_app_limiter_first_counterexample:
  "fst (app_handle None example_gateway
      (snd (serve None example_gateway fresh_state
              (replicate 100 (example_request (PostPayment (example_body (JNum (Fin 100))))))))
      (example_request (PostPayment (example_body (JNum (Fin 100))))))
   = [LimiterHit AppWide ''10.0.0.1'',
      Respond \<lparr>res_status = 429, res_body = LibraryDefault\<rparr>]
   \<and> LibraryDefault \<noteq> Envelope False ''Too many payment requests, please try again later''"
proof -
  let ?r = "example_request (PostPayment (example_body (JNum (Fin 100))))"
  let ?st1 = "snd (app_handle None example_gateway fresh_state ?r)"
  have one: "app_store ?st1 ''10.0.0.1'' = Some (1, 900000)"
    by (simp add: app_handle_app_store example_request_def fresh_state_def hit_def limiter_def)
  have "\<forall>r \<in> set (replicate 99 ?r). req_ip r = ''10.0.0.1'' \<and> req_time r < 900000"
    by (simp add: example_request_def)
  from serve_count [OF this one, of None example_gateway]
  have "app_store (snd (serve None example_gateway ?st1 (replicate 99 ?r))) ''10.0.0.1''
        = Some (100, 900000)" by simp
  moreover have "replicate 100 ?r = ?r # replicate 99 ?r"
    by (simp add: replicate_Suc [symmetric] del: replicate_Suc)
  ultimately have st:
    "app_store (snd (serve None example_gateway fresh_state (replicate 100 ?r))) (req_ip ?r)
     = Some (100, 900000)"
    by (simp add: Let_def example_request_def)
  have "snd (rate_limit limiter
          (app_store (snd (serve None example_gateway fresh_state (replicate 100 ?r))))
          (req_ip ?r) (req_time ?r)) = Some \<lparr>res_status = 429, res_body = LibraryDefault\<rparr>"
    using st by (simp add: rate_limit_def hit_def limiter_def example_request_def)
  from app_handle_blocked [OF this] show ?thesis by (simp add: example_request_def)
qed

text \<open>
  Claim C4, amended. For the 101st request (and every later one) from the same
  IP within a 15-minute window that reaches the payment router, the router
  answers HTTP 429 with the general tier's message \<open>{success: false, error: "Too
  many payment requests, please try again later"}\<close>; the general limiter is the
  first stage of the router, so nothing else happens: no validation, no gateway
  call. The window is the one the first request opens, the client having no
  running window then.
\<close>

theorem C4_payment_limiter_blocks:
  assumes start: "payment_store st ip = None
                  \<or> (\<exists>n reset. payment_store st ip = Some (n, reset) \<and> reset \<le> req_time first)"
    and same: "\<forall>r \<in> set (first # reqs @ [req]).
                 req_ip r = ip \<and> req_time r < req_time first + windowMs paymentLimiter"
    and count: "100 \<le> length (first # reqs)"
  shows "fst (payment_router gw (snd (serve_router gw st (first # reqs))) req) =
     [LimiterHit General ip,
      Respond \<lparr>res_status = 429,
               res_body = Envelope False ''Too many payment requests, please try again later''\<rparr>]"
proof -
  let ?reset = "req_time first + windowMs paymentLimiter"
  have ip: "req_ip first = ip" "req_ip req = ip" and t: "req_time req < ?reset"
    using same by simp_all
  have "payment_store (snd (payment_router gw st first)) ip = Some (1, ?reset)"
    using start ip by (simp add: payment_router_payment_store hit_new)
  moreover have "\<forall>r \<in> set reqs. req_ip r = ip \<and> req_time r < ?reset"
    using same by simp
  ultimately have "payment_store (snd (serve_router gw (snd (payment_router gw st first)) reqs)) ip
      = Some (1 + length reqs, ?reset)"
    by (rule serve_router_count [rotated])
  then have "payment_store (snd (serve_router gw st (first # reqs))) (req_ip req)
      = Some (1 + length reqs, ?reset)"
    using ip by (simp add: Let_def)
  from payment_router_blocked [OF this t] count ip show ?thesis by simp
qed

text \<open>
  One hundred requests reach the router of a fresh process at time 0; the next
  one, 14 minutes later and with a body the validator would reject, is answered
  429 with the general tier's message.
\<close>

theorem C4_payment_limiter_blocks_witness:
  "fst (payment_router example_gateway
      (snd (serve_router example_gateway fresh_state
              (example_request (GetPayment ''pi_1'')
               # replicate 99 (example_request (PostPayment (example_body (JNum (Fin 100))))))))
      ((example_request (PostPayment (example_body (JNum (Fin (- 5))))))\<lparr>req_time := 840000\<rparr>))
   = [LimiterHit General ''10.0.0.1'',
      Respond \<lparr>res_status = 429,
               res_body = Envelope False ''Too many payment requests, please try again later''\<rparr>]"
  using C4_payment_limiter_blocks [of fresh_state "''10.0.0.1''"
      "example_request (GetPayment ''pi_1'')"
      "replicate 99 (example_request (PostPayment (example_body (JNum (Fin 100)))))"
      "(example_request (PostPayment (example_body (JNum (Fin (- 5))))))\<lparr>req_time := 840000\<rparr>"
      example_gateway]
  by (simp add: fresh_state_def example_request_def paymentLimiter_def)

end
